theory Spec2Isabelle
  imports Complex_Main
begin

section \<open>Values\<close>

text \<open>
  The values a request body can hold, as \<^verbatim>\<open>request.get_json()\<close> returns them. A dict is
  an association list read with \<open>map_of\<close>; a float is given by its value.
\<close>

datatype json =
    JNull
  | JBool bool
  | JInt int
  | JFloat real
  | JStr string
  | JList "json list"
  | JObject "(string \<times> json) list"

text \<open>Python's truth value of an object: \<^verbatim>\<open>not data\<close> is \<open>\<not> truthy data\<close>.\<close>

fun truthy :: "json \<Rightarrow> bool" where
  "truthy JNull = False"
| "truthy (JBool b) = b"
| "truthy (JInt i) = (i \<noteq> 0)"
| "truthy (JFloat r) = (r \<noteq> 0)"
| "truthy (JStr s) = (s \<noteq> [])"
| "truthy (JList xs) = (xs \<noteq> [])"
| "truthy (JObject kvs) = (kvs \<noteq> [])"

text \<open>
  \<^verbatim>\<open>class Category(Enum)\<close>, with the member's \<^verbatim>\<open>.name\<close> and the lookup by name
  \<^verbatim>\<open>Category[...]\<close>.
\<close>

datatype Category = UNKNOWN | CLOTHS | FOOD | HOUSEWARES | AUTOMOTIVE | TOOLS

fun Category_name :: "Category \<Rightarrow> string" where
  "Category_name UNKNOWN = ''UNKNOWN''"
| "Category_name CLOTHS = ''CLOTHS''"
| "Category_name FOOD = ''FOOD''"
| "Category_name HOUSEWARES = ''HOUSEWARES''"
| "Category_name AUTOMOTIVE = ''AUTOMOTIVE''"
| "Category_name TOOLS = ''TOOLS''"

definition Category_members :: "(string \<times> Category) list" where
  "Category_members =
     [(''UNKNOWN'', UNKNOWN), (''CLOTHS'', CLOTHS), (''FOOD'', FOOD),
      (''HOUSEWARES'', HOUSEWARES), (''AUTOMOTIVE'', AUTOMOTIVE), (''TOOLS'', TOOLS)]"

text \<open>
  A decimal as \<^verbatim>\<open>Decimal.as_tuple()\<close> shows it: sign, coefficient and exponent, or one of
  the special values. The constructor \<^verbatim>\<open>Decimal(x)\<close> and \<^verbatim>\<open>str(d)\<close> belong to
  the standard library; the functions below take them as parameters \<open>D\<close> (\<open>None\<close> when
  the constructor raises) and \<open>S\<close>.
\<close>

datatype decimal =
    Finite bool nat int
  | Infinity bool
  | NaN bool bool nat

section \<open>Exceptions\<close>

text \<open>
  \<open>Missing_field k\<close> is the text of \<^verbatim>\<open>f"Missing field: {error}"\<close> for the
  \<^verbatim>\<open>KeyError\<close> of key \<open>k\<close>; \<open>Str e\<close> is \<^verbatim>\<open>str(error)\<close> for an
  exception \<open>e\<close> of a library.
\<close>

datatype library_exception =
  TypeError | DecimalException | AttributeError | IntegrityError | InvalidRequestError

datatype message = Text string | Missing_field json | Str library_exception

datatype exn = KeyError json | Library library_exception | DataValidationError message

section \<open>Entity model\<close>

text \<open>
  The in-memory \<^verbatim>\<open>Product\<close>. \<open>name\<close> and \<open>description\<close> hold whatever the payload
  gave (\<open>JNull\<close> when unset); the other attributes are unset (\<open>None\<close>) or of the
  column's type. \<open>tracked\<close> is what the session knows of the object, the instance
  state every \<^verbatim>\<open>db.Model\<close> object carries: the key of the row the object was loaded
  from or inserted as, \<open>None\<close> for an object the session has not seen. No method of
  \<^verbatim>\<open>Product\<close> reads or writes it; \<^verbatim>\<open>Product()\<close> starts without it.
\<close>

record Product =
  id' :: "int option"
  name :: json
  description :: json
  price :: "decimal option"
  available :: "bool option"
  category :: "Category option"
  tracked :: "int option"

definition Product_new :: Product where
  "Product_new = \<lparr>id' = None, name = JNull, description = JNull, price = None,
                  available = None, category = None, tracked = None\<rparr>"

text \<open>\<^verbatim>\<open>data[key]\<close>: a dict raises \<^verbatim>\<open>KeyError(key)\<close>, any other value \<^verbatim>\<open>TypeError\<close>.\<close>

fun getitem :: "json \<Rightarrow> string \<Rightarrow> exn + json" where
  "getitem (JObject kvs) k =
     (case map_of kvs k of None \<Rightarrow> Inl (KeyError (JStr k)) | Some v \<Rightarrow> Inr v)"
| "getitem _ k = Inl (Library TypeError)"

text \<open>
  \<^verbatim>\<open>Category[x]\<close>: a lookup of \<open>x\<close> in the dict of members, so \<^verbatim>\<open>KeyError(x)\<close> when
  \<open>x\<close> is no member's name and \<^verbatim>\<open>TypeError\<close> when \<open>x\<close> is unhashable.
\<close>

fun Category_getitem :: "json \<Rightarrow> exn + Category" where
  "Category_getitem (JStr s) =
     (case map_of Category_members s of None \<Rightarrow> Inl (KeyError (JStr s)) | Some c \<Rightarrow> Inr c)"
| "Category_getitem (JList xs) = Inl (Library TypeError)"
| "Category_getitem (JObject kvs) = Inl (Library TypeError)"
| "Category_getitem v = Inl (KeyError v)"

text \<open>\<^verbatim>\<open>isinstance(v, bool)\<close>\<close>

fun isinstance_bool :: "json \<Rightarrow> bool" where
  "isinstance_bool (JBool b) = True"
| "isinstance_bool _ = False"

fun the_bool :: "json \<Rightarrow> bool option" where
  "the_bool (JBool b) = Some b"
| "the_bool _ = None"

text \<open>
  \<^verbatim>\<open>Product.serialize\<close>. \<^verbatim>\<open>str(None)\<close> is \<^verbatim>\<open>'None'\<close>; \<^verbatim>\<open>None.name\<close> raises
  \<^verbatim>\<open>AttributeError\<close>.
\<close>

definition serialize :: "(decimal \<Rightarrow> string) \<Rightarrow> Product \<Rightarrow> exn + json" where
  "serialize S self =
     (case category self of
        None \<Rightarrow> Inl (Library AttributeError)
      | Some c \<Rightarrow>
          Inr (JObject
            [(''id'', case id' self of None \<Rightarrow> JNull | Some i \<Rightarrow> JInt i),
             (''name'', name self),
             (''description'', description self),
             (''price'', JStr (case price self of None \<Rightarrow> ''None'' | Some d \<Rightarrow> S d)),
             (''available'', case available self of None \<Rightarrow> JNull | Some b \<Rightarrow> JBool b),
             (''category'', JStr (Category_name c))]))"

text \<open>
  The body of the \<^verbatim>\<open>try\<close> in \<^verbatim>\<open>Product.deserialize\<close>: the statements in order, each
  assignment kept in the receiver that is returned with the exception.
\<close>

definition deserialize_try :: "(json \<Rightarrow> decimal option) \<Rightarrow> Product \<Rightarrow> json \<Rightarrow> (exn + unit) \<times> Product" where
  "deserialize_try D self data =
     (case getitem data ''name'' of
        Inl e \<Rightarrow> (Inl e, self)
      | Inr n \<Rightarrow>
     (let self1 = self\<lparr>name := n\<rparr> in
      case getitem data ''description'' of
        Inl e \<Rightarrow> (Inl e, self1)
      | Inr d \<Rightarrow>
     (let self2 = self1\<lparr>description := d\<rparr> in
      case getitem data ''price'' of
        Inl e \<Rightarrow> (Inl e, self2)
      | Inr p \<Rightarrow>
     (case D p of
        None \<Rightarrow> (Inl (Library DecimalException), self2)
      | Some dec \<Rightarrow>
     (let self3 = self2\<lparr>price := Some dec\<rparr> in
      case getitem data ''available'' of
        Inl e \<Rightarrow> (Inl e, self3)
      | Inr a \<Rightarrow>
     (if \<not> isinstance_bool a
      then (Inl (DataValidationError (Text ''Invalid type for available'')), self3)
      else
     (let self4 = self3\<lparr>available := the_bool a\<rparr> in
      case getitem data ''category'' of
        Inl e \<Rightarrow> (Inl e, self4)
      | Inr c \<Rightarrow>
     (case Category_getitem c of
        Inl e \<Rightarrow> (Inl e, self4)
      | Inr cat \<Rightarrow> (Inr (), self4\<lparr>category := Some cat\<rparr>)))))))))"

text \<open>
  The two \<^verbatim>\<open>except\<close> clauses: a \<^verbatim>\<open>KeyError\<close> becomes "Missing field", any other
  exception \<open>e\<close> becomes \<^verbatim>\<open>DataValidationError(str(e))\<close>.
\<close>

fun deserialize_except :: "exn \<Rightarrow> exn" where
  "deserialize_except (KeyError k) = DataValidationError (Missing_field k)"
| "deserialize_except (Library e) = DataValidationError (Str e)"
| "deserialize_except (DataValidationError m) = DataValidationError m"

text \<open>
  \<^verbatim>\<open>Product.deserialize\<close>: the result is the exception raised or the normal return, and
  the receiver as the call leaves it.
\<close>

definition deserialize :: "(json \<Rightarrow> decimal option) \<Rightarrow> Product \<Rightarrow> json \<Rightarrow> (exn + unit) \<times> Product" where
  "deserialize D self data =
     (if \<not> truthy data then (Inl (DataValidationError (Text ''No data provided'')), self)
      else case deserialize_try D self data of
             (Inl e, self') \<Rightarrow> (Inl (deserialize_except e), self')
           | (Inr u, self') \<Rightarrow> (Inr u, self'))"

section \<open>Persistence gateway\<close>

text \<open>
  A stored row has the types of the columns declared in \<^verbatim>\<open>class Product(db.Model)\<close>;
  the table keeps the rows under their primary key, in storage order. What the backend
  stores for a value handed to a \<^verbatim>\<open>String(n)\<close> or a \<^verbatim>\<open>Numeric\<close> column, which it may
  convert, normalise or refuse (\<open>None\<close>), is the backend's own and is kept with the
  store as \<open>string_column\<close> and \<open>numeric_column\<close>.
\<close>

record row =
  r_name :: string
  r_description :: string
  r_price :: decimal
  r_available :: bool
  r_category :: Category

record store =
  table :: "(int \<times> row) list"
  sequence :: int
  string_column :: "nat \<Rightarrow> json \<Rightarrow> string option"
  numeric_column :: "decimal \<Rightarrow> decimal option"


text \<open>
  The column declarations: \<^verbatim>\<open>name = String(100), nullable=False\<close>,
  \<^verbatim>\<open>description = String(250), nullable=False\<close>, \<^verbatim>\<open>price = Numeric, nullable=False\<close>,
  \<^verbatim>\<open>available = Boolean, nullable=False, default=True\<close> and
  \<^verbatim>\<open>category = Enum(Category), nullable=False, server_default=UNKNOWN\<close>.
  \<open>insert_columns\<close> is the row an INSERT of the instance stores, \<open>None\<close> when the
  storage refuses it: an unset name, description or price is refused, an unset
  \<open>available\<close> or \<open>category\<close> takes the column's default.
\<close>

definition insert_columns :: "store \<Rightarrow> Product \<Rightarrow> row option" where
  "insert_columns st self =
     (case price self of
        None \<Rightarrow> None
      | Some p \<Rightarrow>
          if name self = JNull \<or> description self = JNull then None
          else (case (string_column st 100 (name self),
                      string_column st 250 (description self),
                      numeric_column st p) of
                  (Some n, Some d, Some p') \<Rightarrow>
                    Some \<lparr>r_name = n, r_description = d, r_price = p',
                          r_available = (case available self of None \<Rightarrow> True | Some b \<Rightarrow> b),
                          r_category = (case category self of None \<Rightarrow> UNKNOWN | Some c \<Rightarrow> c)\<rparr>
                | _ \<Rightarrow> None))"

text \<open>
  \<open>update_columns\<close> is the row an UPDATE of the instance's attributes stores: a
  default has no part in it, so every unset attribute is refused.
\<close>

definition update_columns :: "store \<Rightarrow> Product \<Rightarrow> row option" where
  "update_columns st self =
     (case (price self, available self, category self) of
        (Some p, Some b, Some c) \<Rightarrow>
          if name self = JNull \<or> description self = JNull then None
          else (case (string_column st 100 (name self),
                      string_column st 250 (description self),
                      numeric_column st p) of
                  (Some n, Some d, Some p') \<Rightarrow>
                    Some \<lparr>r_name = n, r_description = d, r_price = p',
                          r_available = b, r_category = c\<rparr>
                | _ \<Rightarrow> None)
      | _ \<Rightarrow> None)"

text \<open>The instance the session gives for the row \<open>r\<close> of key \<open>k\<close>; the session tracks it.\<close>

definition of_row :: "int \<Rightarrow> row \<Rightarrow> Product" where
  "of_row k r = \<lparr>id' = Some k, name = JStr (r_name r), description = JStr (r_description r),
                   price = Some (r_price r), available = Some (r_available r),
                   category = Some (r_category r), tracked = Some k\<rparr>"

text \<open>
  The storage session, \<^verbatim>\<open>db.session\<close> and \<^verbatim>\<open>Product.query\<close> of Flask-SQLAlchemy, is no
  code of the repository: the operations below stand for it. An instance is a value
  that carries its \<open>tracked\<close> key; a commit is the commit of the instance at hand, and
  changes pending on other objects of the same session have no counterpart here. After
  a commit the attributes of the instance are those of its row.
\<close>

text \<open>
  Modelled from the spec: \<^verbatim>\<open>db.session.add(self)\<close> and \<^verbatim>\<open>db.session.commit()\<close> for an
  object the session has not seen, the insertion of a new row. The key is the next
  value of the sequence when the id is unset; a row the storage refuses, or a key that
  is taken, ends in the storage's exception and inserts nothing.
\<close>

definition session_insert :: "Product \<Rightarrow> store \<Rightarrow> (exn + unit) \<times> Product \<times> store" where
  "session_insert self st =
     (case insert_columns st self of
        None \<Rightarrow> (Inl (Library IntegrityError), self, st)
      | Some r \<Rightarrow>
          (case id' self of
             None \<Rightarrow>
               (Inr (), of_row (sequence st) r,
                st\<lparr>table := table st @ [(sequence st, r)], sequence := sequence st + 1\<rparr>)
           | Some k \<Rightarrow>
               if k \<in> fst ` set (table st) then (Inl (Library IntegrityError), self, st)
               else (Inr (), of_row k r, st\<lparr>table := table st @ [(k, r)]\<rparr>)))"

text \<open>
  Modelled from the spec: \<^verbatim>\<open>db.session.commit()\<close> for an object the session tracks
  under the key \<open>j\<close>, the UPDATE of the row \<open>j\<close> with the attributes of the object.
  Nothing is written when the row is gone or the object is as its row is. An unset id
  (a NULL primary key), an attribute the storage refuses, or an id changed to a key
  that is taken ends in the storage's exception and writes nothing.
\<close>

definition session_flush :: "int \<Rightarrow> Product \<Rightarrow> store \<Rightarrow> (exn + unit) \<times> Product \<times> store" where
  "session_flush j self st =
     (case map_of (table st) j of
        None \<Rightarrow> (Inr (), self, st)
      | Some r0 \<Rightarrow>
          if self = of_row j r0 then (Inr (), self, st)
          else (case (id' self, update_columns st self) of
                  (Some k, Some r) \<Rightarrow>
                    if k \<noteq> j \<and> k \<in> fst ` set (table st)
                    then (Inl (Library IntegrityError), self, st)
                    else (Inr (), of_row k r,
                          st\<lparr>table :=
                               map (\<lambda>(i, r0). if i = j then (k, r) else (i, r0)) (table st)\<rparr>)
                | _ \<Rightarrow> (Inl (Library IntegrityError), self, st)))"

text \<open>
  Modelled from the spec: \<^verbatim>\<open>db.session.delete(self)\<close> and \<^verbatim>\<open>db.session.commit()\<close>, the
  removal of the row matching the instance's id.
\<close>

definition session_delete :: "Product \<Rightarrow> store \<Rightarrow> store" where
  "session_delete self st =
     st\<lparr>table := filter (\<lambda>(j, r). Some j \<noteq> id' self) (table st)\<rparr>"

text \<open>
  Modelled from the spec: \<^verbatim>\<open>cls.query.get(product_id)\<close>, the instance of the row with
  that key, or \<^verbatim>\<open>None\<close>.
\<close>

definition query_get :: "int \<Rightarrow> store \<Rightarrow> Product option" where
  "query_get k st = map_option (of_row k) (map_of (table st) k)"

text \<open>
  Modelled from the spec: \<^verbatim>\<open>cls.query.filter(...).all()\<close> and \<^verbatim>\<open>cls.query.all()\<close>, the
  instances of the rows that satisfy the predicate, in storage order.
\<close>

definition query_filter :: "(row \<Rightarrow> bool) \<Rightarrow> store \<Rightarrow> Product list" where
  "query_filter P st = map (\<lambda>(k, r). of_row k r) (filter (\<lambda>(k, r). P r) (table st))"

text \<open>
  \<^verbatim>\<open>Product.create\<close>: \<^verbatim>\<open>self.id = None\<close>, \<^verbatim>\<open>db.session.add(self)\<close>,
  \<^verbatim>\<open>db.session.commit()\<close>. For an object the session has not seen, \<^verbatim>\<open>add\<close> makes the
  commit an insertion. For an object it tracks \<^verbatim>\<open>add\<close> adds nothing, and the commit
  writes the object's change, the unset id, to its row; when the row has been deleted
  \<^verbatim>\<open>add\<close> refuses the object.
\<close>

definition create :: "Product \<Rightarrow> store \<Rightarrow> (exn + unit) \<times> Product \<times> store" where
  "create self st =
     (let self1 = self\<lparr>id' := None\<rparr> in
      case tracked self1 of
        None \<Rightarrow> session_insert self1 st
      | Some j \<Rightarrow>
          if j \<in> fst ` set (table st) then session_flush j self1 st
          else (Inl (Library InvalidRequestError), self1, st))"

text \<open>
  \<^verbatim>\<open>Product.update\<close>: the guard and \<^verbatim>\<open>db.session.commit()\<close>. \<^verbatim>\<open>not self.id\<close> holds of
  \<^verbatim>\<open>None\<close> and of \<^verbatim>\<open>0\<close>. The commit writes the changes of an object the session
  tracks and nothing of an object it has not seen.
\<close>

definition update :: "Product \<Rightarrow> store \<Rightarrow> (exn + unit) \<times> Product \<times> store" where
  "update self st =
     (if id' self = None \<or> id' self = Some 0
      then (Inl (DataValidationError (Text ''Update called with empty ID'')), self, st)
      else case tracked self of
             None \<Rightarrow> (Inr (), self, st)
           | Some j \<Rightarrow> session_flush j self st)"

text \<open>\<^verbatim>\<open>Product.delete\<close>\<close>

definition delete :: "Product \<Rightarrow> store \<Rightarrow> store" where
  "delete self st = session_delete self st"

text \<open>The class methods \<^verbatim>\<open>all\<close>, \<^verbatim>\<open>find\<close>, \<^verbatim>\<open>find_by_name\<close>, \<^verbatim>\<open>find_by_availability\<close>.\<close>

definition all_products :: "store \<Rightarrow> Product list" where
  "all_products st = query_filter (\<lambda>r. True) st"

definition find' :: "int \<Rightarrow> store \<Rightarrow> Product option" where
  "find' product_id st = query_get product_id st"

definition find_by_name :: "string \<Rightarrow> store \<Rightarrow> Product list" where
  "find_by_name n st = query_filter (\<lambda>r. r_name r = n) st"

definition find_by_availability :: "bool \<Rightarrow> store \<Rightarrow> Product list" where
  "find_by_availability a st = query_filter (\<lambda>r. r_available r = a) st"

text \<open>
  \<^verbatim>\<open>Product.find_by_category\<close>: the argument is a \<^verbatim>\<open>Category\<close> or a string;
  \<open>None\<close> is the \<^verbatim>\<open>return None\<close> of the \<^verbatim>\<open>except KeyError\<close>.
\<close>

datatype category_arg = Member Category | Named string

fun find_by_category :: "category_arg \<Rightarrow> store \<Rightarrow> Product list option" where
  "find_by_category (Member c) st = Some (query_filter (\<lambda>r. r_category r = c) st)"
| "find_by_category (Named s) st =
     (case map_of Category_members s of
        None \<Rightarrow> None
      | Some c \<Rightarrow> Some (query_filter (\<lambda>r. r_category r = c) st))"

section \<open>Request handlers\<close>

text \<open>
  What a handler reads of the request: the headers, the query arguments and the parsed
  body (\<open>None\<close> when the body is no JSON document, where \<^verbatim>\<open>get_json\<close> aborts with 400).
\<close>

record request =
  headers :: "string \<rightharpoonup> string"
  args :: "string \<rightharpoonup> string"
  get_json :: "json option"

text \<open>
  What a handler answers: a reply with status, body and the product the \<^verbatim>\<open>Location\<close>
  header points to; an \<^verbatim>\<open>abort\<close> with status and description; or an exception that
  leaves the handler.
\<close>

datatype body = Json json | Empty

datatype response =
    Reply nat body "int option"
  | Abort nat "string option"
  | Unhandled exn

text \<open>
  Modelled from the spec: \<^verbatim>\<open>HTTP_200_OK\<close> of \<^verbatim>\<open>service.common.status\<close>, a module that
  is not among the sources; the specification gives the codes in use.
\<close>

definition HTTP_200_OK :: nat where
  "HTTP_200_OK = 200"

text \<open>Modelled from the spec: \<^verbatim>\<open>HTTP_201_CREATED\<close> of \<^verbatim>\<open>service.common.status\<close>.\<close>

definition HTTP_201_CREATED :: nat where
  "HTTP_201_CREATED = 201"

text \<open>Modelled from the spec: \<^verbatim>\<open>HTTP_204_NO_CONTENT\<close> of \<^verbatim>\<open>service.common.status\<close>.\<close>

definition HTTP_204_NO_CONTENT :: nat where
  "HTTP_204_NO_CONTENT = 204"

text \<open>Modelled from the spec: \<^verbatim>\<open>HTTP_400_BAD_REQUEST\<close> of \<^verbatim>\<open>service.common.status\<close>.\<close>

definition HTTP_400_BAD_REQUEST :: nat where
  "HTTP_400_BAD_REQUEST = 400"

text \<open>Modelled from the spec: \<^verbatim>\<open>HTTP_404_NOT_FOUND\<close> of \<^verbatim>\<open>service.common.status\<close>.\<close>

definition HTTP_404_NOT_FOUND :: nat where
  "HTTP_404_NOT_FOUND = 404"

text \<open>
  Modelled from the spec: \<^verbatim>\<open>HTTP_415_UNSUPPORTED_MEDIA_TYPE\<close> of
  \<^verbatim>\<open>service.common.status\<close>.
\<close>

definition HTTP_415_UNSUPPORTED_MEDIA_TYPE :: nat where
  "HTTP_415_UNSUPPORTED_MEDIA_TYPE = 415"

text \<open>\<^verbatim>\<open>check_content_type\<close>: \<open>Some r\<close> when the request is aborted with \<open>r\<close>.\<close>

definition check_content_type :: "request \<Rightarrow> string \<Rightarrow> response option" where
  "check_content_type req content_type =
     (case headers req ''Content-Type'' of
        None \<Rightarrow> Some (Abort HTTP_415_UNSUPPORTED_MEDIA_TYPE None)
      | Some v \<Rightarrow>
          if v \<noteq> content_type then Some (Abort HTTP_415_UNSUPPORTED_MEDIA_TYPE None)
          else None)"

text \<open>\<^verbatim>\<open>[p.serialize() for p in products]\<close>, which stops at the first exception.\<close>

fun serialize_all :: "(decimal \<Rightarrow> string) \<Rightarrow> Product list \<Rightarrow> exn + json list" where
  "serialize_all S [] = Inr []"
| "serialize_all S (p # ps) =
     (case serialize S p of
        Inl e \<Rightarrow> Inl e
      | Inr j \<Rightarrow> (case serialize_all S ps of Inl e \<Rightarrow> Inl e | Inr js \<Rightarrow> Inr (j # js)))"

text \<open>\<^verbatim>\<open>create_products\<close>, the handler of POST /products.\<close>

definition create_products ::
  "(json \<Rightarrow> decimal option) \<Rightarrow> (decimal \<Rightarrow> string) \<Rightarrow> request \<Rightarrow> store \<Rightarrow> response \<times> store" where
  "create_products D S req st =
     (case check_content_type req ''application/json'' of
        Some r \<Rightarrow> (r, st)
      | None \<Rightarrow>
     (case get_json req of
        None \<Rightarrow> (Abort HTTP_400_BAD_REQUEST None, st)
      | Some data \<Rightarrow>
     (case deserialize D Product_new data of
        (Inl (DataValidationError m), product) \<Rightarrow>
          (Abort HTTP_400_BAD_REQUEST (Some ''Invalid product data''), st)
      | (Inl e, product) \<Rightarrow> (Unhandled e, st)
      | (Inr u, product) \<Rightarrow>
     (case create product st of
        (Inl (DataValidationError m), product', st') \<Rightarrow>
          (Abort HTTP_400_BAD_REQUEST (Some ''Invalid product data''), st')
      | (Inl e, product', st') \<Rightarrow> (Unhandled e, st')
      | (Inr u', product', st') \<Rightarrow>
     (case serialize S product' of
        Inl e \<Rightarrow> (Unhandled e, st')
      | Inr j \<Rightarrow> (Reply HTTP_201_CREATED (Json j) (id' product'), st'))))))"

text \<open>\<^verbatim>\<open>str.lower\<close> on the letters A to Z.\<close>

definition lower_char :: "char \<Rightarrow> char" where
  "lower_char c =
     (case map_of (zip ''ABCDEFGHIJKLMNOPQRSTUVWXYZ'' ''abcdefghijklmnopqrstuvwxyz'') c of
        None \<Rightarrow> c
      | Some l \<Rightarrow> l)"

definition lower :: "string \<Rightarrow> string" where
  "lower s = map lower_char s"

text \<open>The answer of \<^verbatim>\<open>list_products\<close> for the products found.\<close>

definition list_reply :: "(decimal \<Rightarrow> string) \<Rightarrow> Product list \<Rightarrow> response" where
  "list_reply S products =
     (case serialize_all S products of
        Inl e \<Rightarrow> Unhandled e
      | Inr js \<Rightarrow> Reply HTTP_200_OK (Json (JList js)) None)"

text \<open>
  \<^verbatim>\<open>list_products\<close>, the handler of GET /products. \<^verbatim>\<open>if name:\<close> holds of a string that is
  present and not empty.
\<close>

definition list_products :: "(decimal \<Rightarrow> string) \<Rightarrow> request \<Rightarrow> store \<Rightarrow> response \<times> store" where
  "list_products S req st =
     (let name_arg = args req ''name'';
          category_arg = args req ''category'';
          available_arg = args req ''available''
      in
      if name_arg \<noteq> None \<and> name_arg \<noteq> Some []
      then (list_reply S (find_by_name (the name_arg) st), st)
      else if category_arg \<noteq> None \<and> category_arg \<noteq> Some []
      then (case find_by_category (Named (the category_arg)) st of
              None \<Rightarrow> (Abort HTTP_400_BAD_REQUEST (Some ''Invalid category''), st)
            | Some products \<Rightarrow> (list_reply S products, st))
      else if available_arg \<noteq> None
      then (if lower (the available_arg) \<notin> set [''true'', ''false'']
            then (Abort HTTP_400_BAD_REQUEST (Some ''Invalid availability''), st)
            else (list_reply S
                    (find_by_availability (lower (the available_arg) = ''true'') st), st))
      else (list_reply S (all_products st), st))"

text \<open>\<^verbatim>\<open>get_product\<close>, the handler of GET /products/{id}.\<close>

definition get_product :: "(decimal \<Rightarrow> string) \<Rightarrow> int \<Rightarrow> store \<Rightarrow> response \<times> store" where
  "get_product S product_id st =
     (case find' product_id st of
        None \<Rightarrow> (Abort HTTP_404_NOT_FOUND (Some ''Product not found''), st)
      | Some product \<Rightarrow>
          (case serialize S product of
             Inl e \<Rightarrow> (Unhandled e, st)
           | Inr j \<Rightarrow> (Reply HTTP_200_OK (Json j) None, st)))"

text \<open>\<^verbatim>\<open>update_product\<close>, the handler of PUT /products/{id}.\<close>

definition update_product ::
  "(json \<Rightarrow> decimal option) \<Rightarrow> (decimal \<Rightarrow> string) \<Rightarrow> int \<Rightarrow> request \<Rightarrow> store \<Rightarrow> response \<times> store" where
  "update_product D S product_id req st =
     (case check_content_type req ''application/json'' of
        Some r \<Rightarrow> (r, st)
      | None \<Rightarrow>
     (case find' product_id st of
        None \<Rightarrow> (Abort HTTP_404_NOT_FOUND (Some ''Product not found''), st)
      | Some product \<Rightarrow>
     (case get_json req of
        None \<Rightarrow> (Abort HTTP_400_BAD_REQUEST None, st)
      | Some data \<Rightarrow>
     (case deserialize D product data of
        (Inl (DataValidationError m), product1) \<Rightarrow>
          (Abort HTTP_400_BAD_REQUEST (Some ''Invalid product data''), st)
      | (Inl e, product1) \<Rightarrow> (Unhandled e, st)
      | (Inr u, product1) \<Rightarrow>
     (case update product1 st of
        (Inl (DataValidationError m), product2, st') \<Rightarrow>
          (Abort HTTP_400_BAD_REQUEST (Some ''Invalid product data''), st')
      | (Inl e, product2, st') \<Rightarrow> (Unhandled e, st')
      | (Inr u', product2, st') \<Rightarrow>
     (case serialize S product2 of
        Inl e \<Rightarrow> (Unhandled e, st')
      | Inr j \<Rightarrow> (Reply HTTP_200_OK (Json j) None, st')))))))"

text \<open>\<^verbatim>\<open>delete_products\<close>, the handler of DELETE /products/{id}.\<close>

definition delete_products :: "int \<Rightarrow> store \<Rightarrow> response \<times> store" where
  "delete_products product_id st =
     (case find' product_id st of
        None \<Rightarrow> (Abort HTTP_404_NOT_FOUND (Some ''Product not found''), st)
      | Some product \<Rightarrow> (Reply HTTP_204_NO_CONTENT Empty None, delete product st))"

section \<open>The specification's conditions and the examples\<close>

text \<open>
  The keys \<^verbatim>\<open>deserialize\<close> requires and, in the specification's words, the payloads it
  rejects: an empty one, one that lacks a required key, one whose \<^verbatim>\<open>available\<close> is no
  boolean, one whose \<^verbatim>\<open>category\<close> is no name of a member, one whose \<^verbatim>\<open>price\<close> the
  decimal constructor does not parse.
\<close>

definition required_keys :: "string list" where
  "required_keys = [''name'', ''description'', ''price'', ''available'', ''category'']"

definition payload_rejected :: "(json \<Rightarrow> decimal option) \<Rightarrow> (string \<times> json) list \<Rightarrow> bool" where
  "payload_rejected D kvs \<longleftrightarrow>
     kvs = []
     \<or> (\<exists>k \<in> set required_keys. map_of kvs k = None)
     \<or> (\<exists>v. map_of kvs ''available'' = Some v \<and> (\<forall>b. v \<noteq> JBool b))
     \<or> (\<exists>v. map_of kvs ''category'' = Some v \<and> (\<forall>c. v \<noteq> JStr (Category_name c)))
     \<or> (\<exists>v. map_of kvs ''price'' = Some v \<and> D v = None)"

text \<open>\<open>js\<close> is the array of the serialized \<open>products\<close>, in their order.\<close>

definition serialized :: "(decimal \<Rightarrow> string) \<Rightarrow> Product list \<Rightarrow> json list \<Rightarrow> bool" where
  "serialized S products js \<longleftrightarrow> list_all2 (\<lambda>j p. serialize S p = Inr j) js products"

text \<open>
  The product of \<^verbatim>\<open>test_create_a_product\<close> with the decimal price 12.50, the payload of
  the specification's end-to-end example, two stored rows in a store whose backend
  keeps a string within the declared length and a decimal as they are, and the decimal
  library at the one decimal the examples use: \<^verbatim>\<open>Decimal('12.50')\<close> and its \<^verbatim>\<open>str\<close>.
\<close>

definition Fedora :: Product where
  "Fedora = \<lparr>id' = None, name = JStr ''Fedora'', description = JStr ''A red hat'',
             price = Some (Finite False 1250 (- 2)), available = Some True,
             category = Some CLOTHS, tracked = None\<rparr>"

definition Fedora_payload :: "(string \<times> json) list" where
  "Fedora_payload =
     [(''name'', JStr ''Fedora''), (''description'', JStr ''A red hat''),
      (''price'', JStr ''12.50''), (''available'', JBool True),
      (''category'', JStr ''CLOTHS'')]"

definition Fedora_row :: row where
  "Fedora_row = \<lparr>r_name = ''Fedora'', r_description = ''A red hat'',
                 r_price = Finite False 1250 (- 2), r_available = True,
                 r_category = CLOTHS\<rparr>"

definition Laptop_row :: row where
  "Laptop_row = \<lparr>r_name = ''Laptop'', r_description = ''A computer'',
                 r_price = Finite False 1250 (- 2), r_available = False,
                 r_category = TOOLS\<rparr>"

fun keep_string :: "nat \<Rightarrow> json \<Rightarrow> string option" where
  "keep_string n (JStr s) = (if length s \<le> n then Some s else None)"
| "keep_string n v = None"

definition shop :: store where
  "shop = \<lparr>table = [(1, Fedora_row), (2, Laptop_row)], sequence = 3,
            string_column = keep_string, numeric_column = Some\<rparr>"

definition Decimal_12_50 :: "json \<Rightarrow> decimal option" where
  "Decimal_12_50 v = (if v = JStr ''12.50'' then Some (Finite False 1250 (- 2)) else None)"

definition str_12_50 :: "decimal \<Rightarrow> string" where
  "str_12_50 d = ''12.50''"

definition query :: "(string \<times> string) list \<Rightarrow> request" where
  "query kvs = \<lparr>headers = Map.empty, args = map_of kvs, get_json = None\<rparr>"

section \<open>Category names\<close>

lemma Category_members_name: "map_of Category_members (Category_name c) = Some c"
  by (cases c) (simp_all add: Category_members_def)

lemma Category_members_Some:
  "map_of Category_members s = Some c \<Longrightarrow> s = Category_name c"
  by (auto simp: Category_members_def split: if_splits)

lemma Category_members_None_iff:
  "map_of Category_members s = None \<longleftrightarrow> (\<forall>c. s \<noteq> Category_name c)"
proof
  assume "map_of Category_members s = None"
  then show "\<forall>c. s \<noteq> Category_name c" using Category_members_name by fastforce
next
  assume a: "\<forall>c. s \<noteq> Category_name c"
  show "map_of Category_members s = None"
  proof (cases "map_of Category_members s")
    case None
    then show ?thesis .
  next
    case (Some c)
    then show ?thesis using a Category_members_Some by blast
  qed
qed

lemma Category_getitem_Inr_iff: "Category_getitem v = Inr c \<longleftrightarrow> v = JStr (Category_name c)"
proof
  assume "Category_getitem v = Inr c"
  then show "v = JStr (Category_name c)"
    by (cases v) (auto split: option.splits dest: Category_members_Some)
next
  assume "v = JStr (Category_name c)"
  then show "Category_getitem v = Inr c" by (simp add: Category_members_name)
qed

lemma Category_getitem_isl_iff:
  "isl (Category_getitem v) \<longleftrightarrow> (\<forall>c. v \<noteq> JStr (Category_name c))"
proof -
  have "isl (Category_getitem v) \<longleftrightarrow> (\<forall>c. Category_getitem v \<noteq> Inr c)"
    by (cases "Category_getitem v") auto
  then show ?thesis by (simp add: Category_getitem_Inr_iff)
qed

lemma isinstance_bool_iff: "isinstance_bool v \<longleftrightarrow> (\<exists>b. v = JBool b)"
  by (cases v) simp_all

section \<open>Serialization and validation\<close>

lemma deserialize_valid:
  assumes "map_of kvs ''name'' = Some n" and "map_of kvs ''description'' = Some d"
    and "map_of kvs ''price'' = Some p" and "D p = Some dec"
    and "map_of kvs ''available'' = Some (JBool b)"
    and "map_of kvs ''category'' = Some (JStr (Category_name c))"
  shows "deserialize D self (JObject kvs) =
           (Inr (), self\<lparr>name := n, description := d, price := Some dec,
                           available := Some b, category := Some c\<rparr>)"
proof -
  have "kvs \<noteq> []" using assms(1) by auto
  then show ?thesis using assms
    by (simp add: deserialize_def deserialize_try_def Category_members_name)
qed

lemma deserialize_raises_iff:
  "isl (fst (deserialize D self (JObject kvs))) \<longleftrightarrow>
     kvs = [] \<or> (\<exists>k \<in> set required_keys. map_of kvs k = None)
     \<or> (\<exists>v. map_of kvs ''available'' = Some v \<and> \<not> isinstance_bool v)
     \<or> (\<exists>v. map_of kvs ''category'' = Some v \<and> isl (Category_getitem v))
     \<or> (\<exists>v. map_of kvs ''price'' = Some v \<and> D v = None)"
  by (auto simp: deserialize_def deserialize_try_def required_keys_def Let_def
      split: option.splits sum.splits prod.splits if_splits)

lemma deserialize_rejected_iff:
  "isl (fst (deserialize D self (JObject kvs))) \<longleftrightarrow> payload_rejected D kvs"
  unfolding payload_rejected_def deserialize_raises_iff
  by (simp add: isinstance_bool_iff Category_getitem_isl_iff)

lemma deserialize_raises_validation:
  "fst (deserialize D self data) = Inl e \<Longrightarrow> \<exists>m. e = DataValidationError m"
  by (cases "deserialize_try D self data"; cases "fst (deserialize_try D self data)")
     (auto simp: deserialize_def split: if_splits intro: deserialize_except.elims)

lemma deserialize_accepts:
  assumes "\<not> payload_rejected D kvs"
  shows "\<exists>n d p dec b c.
           map_of kvs ''name'' = Some n \<and> map_of kvs ''description'' = Some d \<and>
           map_of kvs ''price'' = Some p \<and> D p = Some dec \<and>
           map_of kvs ''available'' = Some (JBool b) \<and>
           map_of kvs ''category'' = Some (JStr (Category_name c)) \<and>
           deserialize D self (JObject kvs) =
             (Inr (), self\<lparr>name := n, description := d, price := Some dec,
                             available := Some b, category := Some c\<rparr>)"
proof -
  from assms obtain n d p a c where
    l: "map_of kvs ''name'' = Some n" "map_of kvs ''description'' = Some d"
       "map_of kvs ''price'' = Some p" "map_of kvs ''available'' = Some a"
       "map_of kvs ''category'' = Some c"
    by (auto simp: payload_rejected_def required_keys_def)
  from assms l obtain dec where dec: "D p = Some dec"
    by (auto simp: payload_rejected_def)
  from assms l obtain b where b: "a = JBool b"
    by (auto simp: payload_rejected_def)
  from assms l obtain m where m: "c = JStr (Category_name m)"
    by (auto simp: payload_rejected_def)
  show ?thesis
    using deserialize_valid [of kvs n d p D dec b m self] l dec b m by blast
qed

lemma deserialize_first_missing_key:
  assumes "kvs \<noteq> []"
    and "List.find (\<lambda>k. map_of kvs k = None) required_keys = Some k"
  shows "fst (deserialize D self (JObject kvs)) =
           Inl (DataValidationError
             (if (k = ''available'' \<or> k = ''category'') \<and>
                 (\<forall>v. map_of kvs ''price'' = Some v \<longrightarrow> D v = None)
              then Str DecimalException
              else if k = ''category'' \<and>
                      (\<forall>v. map_of kvs ''available'' = Some v \<longrightarrow> (\<forall>b. v \<noteq> JBool b))
              then Text ''Invalid type for available''
              else Missing_field (JStr k)))"
proof -
  consider (n) "map_of kvs ''name'' = None"
    | (d) n where "map_of kvs ''name'' = Some n" "map_of kvs ''description'' = None"
    | (p) n d where "map_of kvs ''name'' = Some n" "map_of kvs ''description'' = Some d"
        "map_of kvs ''price'' = None"
    | (a) n d p where "map_of kvs ''name'' = Some n" "map_of kvs ''description'' = Some d"
        "map_of kvs ''price'' = Some p" "map_of kvs ''available'' = None"
    | (c) n d p a where "map_of kvs ''name'' = Some n" "map_of kvs ''description'' = Some d"
        "map_of kvs ''price'' = Some p" "map_of kvs ''available'' = Some a"
        "map_of kvs ''category'' = None"
    using assms(2) by (auto simp: required_keys_def split: if_splits)
  then show ?thesis
  proof cases
    case n
    then have "k = ''name''" using assms(2) by (simp add: required_keys_def)
    with n assms(1) show ?thesis
      by (simp add: deserialize_def deserialize_try_def)
  next
    case d
    then have "k = ''description''" using assms(2) by (simp add: required_keys_def)
    with d assms(1) show ?thesis
      by (simp add: deserialize_def deserialize_try_def)
  next
    case p
    then have "k = ''price''" using assms(2) by (simp add: required_keys_def)
    with p assms(1) show ?thesis
      by (simp add: deserialize_def deserialize_try_def)
  next
    case a
    then have "k = ''available''" using assms(2) by (simp add: required_keys_def)
    with a assms(1) show ?thesis
      by (cases "D p") (simp_all add: deserialize_def deserialize_try_def)
  next
    case c
    then have k: "k = ''category''" using assms(2) by (simp add: required_keys_def)
    show ?thesis
    proof (cases "D p")
      case None
      with c k assms(1) show ?thesis
        by (simp add: deserialize_def deserialize_try_def)
    next
      case (Some dec)
      with c k assms(1) show ?thesis
        by (cases "isinstance_bool a")
           (simp_all add: deserialize_def deserialize_try_def isinstance_bool_iff)
    qed
  qed
qed

lemma Fedora_payload_accepted: "\<not> payload_rejected Decimal_12_50 Fedora_payload"
proof -
  have "JStr ''CLOTHS'' = JStr (Category_name CLOTHS)" by simp
  then have "\<exists>c. JStr ''CLOTHS'' = JStr (Category_name c)" by (rule exI)
  then show ?thesis
    by (auto simp: payload_rejected_def Fedora_payload_def required_keys_def Decimal_12_50_def)
qed

text \<open>
  C2. A product \<open>q\<close> whose price is a decimal, whose \<open>available\<close> is a boolean and
  whose category is a member serializes without exception, and \<^verbatim>\<open>deserialize\<close> of the
  mapping on any receiver \<open>r\<close> returns normally with \<open>r\<close> equal to \<open>q\<close> in name,
  description, price, available and category, the receiver's id being the one it had.
  The decimal library enters by its own round trip: \<^verbatim>\<open>Decimal(str(d))\<close> is \<open>d\<close> for
  the price \<open>d\<close>. Equality of decimals is that of their sign, coefficient and
  exponent.
\<close>

theorem deserialize_serialize_roundtrip:
  assumes "price q = Some d" and "available q = Some a" and "category q = Some c"
    and "D (JStr (S d)) = Some d"
  shows "\<exists>j. serialize S q = Inr j \<and>
           deserialize D r j =
             (Inr (), r\<lparr>name := name q, description := description q, price := price q,
                        available := available q, category := category q\<rparr>) \<and>
           id' (snd (deserialize D r j)) = id' r"
  using assms
  by (simp add: serialize_def deserialize_def deserialize_try_def Category_members_name)

theorem deserialize_serialize_roundtrip_witness:
  "price (Fedora\<lparr>id' := Some 7\<rparr>) = Some (Finite False 1250 (- 2)) \<and>
   available (Fedora\<lparr>id' := Some 7\<rparr>) = Some True \<and>
   category (Fedora\<lparr>id' := Some 7\<rparr>) = Some CLOTHS \<and>
   Decimal_12_50 (JStr (str_12_50 (Finite False 1250 (- 2)))) = Some (Finite False 1250 (- 2)) \<and>
   (\<exists>j. serialize str_12_50 (Fedora\<lparr>id' := Some 7\<rparr>) = Inr j \<and>
        deserialize Decimal_12_50 Product_new j = (Inr (), Fedora))"
proof -
  have p: "price (Fedora\<lparr>id' := Some 7\<rparr>) = Some (Finite False 1250 (- 2))"
    and a: "available (Fedora\<lparr>id' := Some 7\<rparr>) = Some True"
    and c: "category (Fedora\<lparr>id' := Some 7\<rparr>) = Some CLOTHS"
    by (simp_all add: Fedora_def)
  have l: "Decimal_12_50 (JStr (str_12_50 (Finite False 1250 (- 2)))) = Some (Finite False 1250 (- 2))"
    by (simp add: Decimal_12_50_def str_12_50_def)
  have e: "Product_new\<lparr>name := name (Fedora\<lparr>id' := Some 7\<rparr>),
             description := description (Fedora\<lparr>id' := Some 7\<rparr>),
             price := price (Fedora\<lparr>id' := Some 7\<rparr>),
             available := available (Fedora\<lparr>id' := Some 7\<rparr>),
             category := category (Fedora\<lparr>id' := Some 7\<rparr>)\<rparr> = Fedora"
    by (simp add: Fedora_def Product_new_def)
  from deserialize_serialize_roundtrip
    [where q = "Fedora\<lparr>id' := Some 7\<rparr>" and d = "Finite False 1250 (- 2)" and a = True
       and c = CLOTHS and D = Decimal_12_50 and S = str_12_50 and r = Product_new]
    p a c l
  have "\<exists>j. serialize str_12_50 (Fedora\<lparr>id' := Some 7\<rparr>) = Inr j \<and>
          deserialize Decimal_12_50 Product_new j =
            (Inr (), Product_new\<lparr>name := name (Fedora\<lparr>id' := Some 7\<rparr>),
               description := description (Fedora\<lparr>id' := Some 7\<rparr>),
               price := price (Fedora\<lparr>id' := Some 7\<rparr>),
               available := available (Fedora\<lparr>id' := Some 7\<rparr>),
               category := category (Fedora\<lparr>id' := Some 7\<rparr>)\<rparr>)"
    by blast
  with e p a c l show ?thesis by simp
qed

text \<open>
  C4, as the code has it. On a mapping, \<^verbatim>\<open>deserialize\<close> raises exactly when the
  mapping is empty, lacks a required key, has an \<^verbatim>\<open>available\<close> that is no boolean, a
  \<^verbatim>\<open>category\<close> that is no name of a member, or a \<^verbatim>\<open>price\<close> that the decimal
  constructor does not parse; what it raises is a validation error; otherwise it returns
  the receiver with the five fields read from the mapping; absent data (\<^verbatim>\<open>None\<close>) is
  refused as well. When a key is missing from a mapping that is not empty, the error
  reports the first missing key in the order name, description, price, available,
  category, unless a statement before the lookup of that key fails first: the price
  that does not parse is reported when the first missing key is \<^verbatim>\<open>available\<close> or
  \<^verbatim>\<open>category\<close>, and the \<^verbatim>\<open>available\<close> that is no boolean when it is \<^verbatim>\<open>category\<close>.
\<close>

theorem deserialize_validation_error_iff:
  "(isl (fst (deserialize D self (JObject kvs))) \<longleftrightarrow> payload_rejected D kvs) \<and>
   (\<forall>e. fst (deserialize D self (JObject kvs)) = Inl e \<longrightarrow> (\<exists>m. e = DataValidationError m)) \<and>
   (\<not> payload_rejected D kvs \<longrightarrow>
      (\<exists>n d p dec b c.
         map_of kvs ''name'' = Some n \<and> map_of kvs ''description'' = Some d \<and>
         map_of kvs ''price'' = Some p \<and> D p = Some dec \<and>
         map_of kvs ''available'' = Some (JBool b) \<and>
         map_of kvs ''category'' = Some (JStr (Category_name c)) \<and>
         deserialize D self (JObject kvs) =
           (Inr (), self\<lparr>name := n, description := d, price := Some dec,
                           available := Some b, category := Some c\<rparr>))) \<and>
   (kvs \<noteq> [] \<and> List.find (\<lambda>k. map_of kvs k = None) required_keys = Some k \<longrightarrow>
      fst (deserialize D self (JObject kvs)) =
        Inl (DataValidationError
          (if (k = ''available'' \<or> k = ''category'') \<and>
              (\<forall>v. map_of kvs ''price'' = Some v \<longrightarrow> D v = None)
           then Str DecimalException
           else if k = ''category'' \<and>
                   (\<forall>v. map_of kvs ''available'' = Some v \<longrightarrow> (\<forall>b. v \<noteq> JBool b))
           then Text ''Invalid type for available''
           else Missing_field (JStr k)))) \<and>
   deserialize D self JNull = (Inl (DataValidationError (Text ''No data provided'')), self)"
proof (intro conjI allI impI)
  show "isl (fst (deserialize D self (JObject kvs))) \<longleftrightarrow> payload_rejected D kvs"
    by (rule deserialize_rejected_iff)
next
  fix e
  assume "fst (deserialize D self (JObject kvs)) = Inl e"
  then show "\<exists>m. e = DataValidationError m" by (rule deserialize_raises_validation)
next
  assume "\<not> payload_rejected D kvs"
  then show "\<exists>n d p dec b c.
         map_of kvs ''name'' = Some n \<and> map_of kvs ''description'' = Some d \<and>
         map_of kvs ''price'' = Some p \<and> D p = Some dec \<and>
         map_of kvs ''available'' = Some (JBool b) \<and>
         map_of kvs ''category'' = Some (JStr (Category_name c)) \<and>
         deserialize D self (JObject kvs) =
           (Inr (), self\<lparr>name := n, description := d, price := Some dec,
                           available := Some b, category := Some c\<rparr>)"
    by (rule deserialize_accepts)
next
  assume "kvs \<noteq> [] \<and> List.find (\<lambda>k. map_of kvs k = None) required_keys = Some k"
  then show "fst (deserialize D self (JObject kvs)) =
        Inl (DataValidationError
          (if (k = ''available'' \<or> k = ''category'') \<and>
              (\<forall>v. map_of kvs ''price'' = Some v \<longrightarrow> D v = None)
           then Str DecimalException
           else if k = ''category'' \<and>
                   (\<forall>v. map_of kvs ''available'' = Some v \<longrightarrow> (\<forall>b. v \<noteq> JBool b))
           then Text ''Invalid type for available''
           else Missing_field (JStr k)))"
    using deserialize_first_missing_key [of kvs k D self] by blast
next
  show "deserialize D self JNull = (Inl (DataValidationError (Text ''No data provided'')), self)"
    by (simp add: deserialize_def)
qed

theorem deserialize_validation_error_iff_witness:
  "\<not> payload_rejected Decimal_12_50 Fedora_payload \<and>
   \<not> isl (fst (deserialize Decimal_12_50 Product_new (JObject Fedora_payload))) \<and>
   payload_rejected Decimal_12_50 [(''name'', JStr ''Ghost Product'')] \<and>
   List.find (\<lambda>k. map_of [(''name'', JStr ''Ghost Product'')] k = None) required_keys =
     Some ''description'' \<and>
   fst (deserialize Decimal_12_50 Product_new (JObject [(''name'', JStr ''Ghost Product'')])) =
     Inl (DataValidationError (Missing_field (JStr ''description'')))"
proof -
  have 1: "\<not> payload_rejected Decimal_12_50 Fedora_payload" by (rule Fedora_payload_accepted)
  have 2: "payload_rejected Decimal_12_50 [(''name'', JStr ''Ghost Product'')]"
    by (simp add: payload_rejected_def required_keys_def)
  have 3: "[(''name'', JStr ''Ghost Product'')] \<noteq> [] \<and>
      List.find (\<lambda>k. map_of [(''name'', JStr ''Ghost Product'')] k = None) required_keys =
        Some ''description''"
    by (simp add: required_keys_def)
  from deserialize_validation_error_iff [of Decimal_12_50 Product_new Fedora_payload] 1
  have 4: "\<not> isl (fst (deserialize Decimal_12_50 Product_new (JObject Fedora_payload)))"
    by blast
  from deserialize_validation_error_iff
    [of Decimal_12_50 Product_new "[(''name'', JStr ''Ghost Product'')]" "''description''"] 3
  have 5: "fst (deserialize Decimal_12_50 Product_new
                  (JObject [(''name'', JStr ''Ghost Product'')])) =
           Inl (DataValidationError (Missing_field (JStr ''description'')))"
    by simp
  from 1 2 3 4 5 show ?thesis by blast
qed

text \<open>
  C4 as the specification words it, a missing required key is what the error reports,
  fails for a mapping that lacks \<^verbatim>\<open>available\<close> and \<^verbatim>\<open>category\<close> and whose price
  does not parse: the error is the one of the decimal constructor and names no key.
\<close>

theorem deserialize_missing_key_unreported_counterexample:
  "map_of [(''name'', JStr ''Fedora''), (''description'', JStr ''A red hat''),
           (''price'', JStr ''abc'')] ''available'' = None \<and>
   map_of [(''name'', JStr ''Fedora''), (''description'', JStr ''A red hat''),
           (''price'', JStr ''abc'')] ''category'' = None \<and>
   Decimal_12_50 (JStr ''abc'') = None \<and>
   fst (deserialize Decimal_12_50 Product_new
          (JObject [(''name'', JStr ''Fedora''), (''description'', JStr ''A red hat''),
                    (''price'', JStr ''abc'')])) =
     Inl (DataValidationError (Str DecimalException))"
  by (simp add: deserialize_def deserialize_try_def Decimal_12_50_def)

text \<open>
  C8. \<^verbatim>\<open>deserialize\<close> is not atomic. When the mapping holds the name, the description
  and a price the decimal constructor parses, and \<^verbatim>\<open>available\<close> is no boolean or
  \<^verbatim>\<open>category\<close> is no name of a member, the call raises a validation error and the
  receiver it leaves behind already has the name, the description and the price of the
  mapping.
\<close>

theorem deserialize_not_atomic:
  assumes "map_of kvs ''name'' = Some n" and "map_of kvs ''description'' = Some d"
    and "map_of kvs ''price'' = Some p" and "D p = Some dec"
    and "(\<exists>a. map_of kvs ''available'' = Some a \<and> (\<forall>b. a \<noteq> JBool b)) \<or>
         (\<exists>c. map_of kvs ''category'' = Some c \<and> (\<forall>m. c \<noteq> JStr (Category_name m)))"
  shows "\<exists>m self'. deserialize D self (JObject kvs) = (Inl (DataValidationError m), self') \<and>
           name self' = n \<and> description self' = d \<and> price self' = Some dec"
proof -
  have ne: "kvs \<noteq> []" using assms(1) by auto
  have rej: "payload_rejected D kvs" using assms(5) by (auto simp: payload_rejected_def)
  then have "isl (fst (deserialize D self (JObject kvs)))" by (simp add: deserialize_rejected_iff)
  then obtain e self' where r: "deserialize D self (JObject kvs) = (Inl e, self')"
    by (cases "deserialize D self (JObject kvs)"; cases "fst (deserialize D self (JObject kvs))")
       auto
  then obtain m where m: "e = DataValidationError m"
    using deserialize_raises_validation [of D self "JObject kvs" e] by auto
  have "name self' = n \<and> description self' = d \<and> price self' = Some dec"
    using r ne assms(1-4)
    by (auto simp: deserialize_def deserialize_try_def Let_def
        split: option.splits sum.splits prod.splits if_splits)
  with r m show ?thesis by blast
qed

theorem deserialize_not_atomic_witness:
  "\<exists>m self'.
     deserialize Decimal_12_50 (Fedora\<lparr>name := JStr ''Hat'', price := None\<rparr>)
       (JObject [(''name'', JStr ''Fedora''), (''description'', JStr ''A red hat''),
                 (''price'', JStr ''12.50''), (''available'', JStr ''yes''),
                 (''category'', JStr ''CLOTHS'')]) =
       (Inl (DataValidationError m), self') \<and>
     name self' = JStr ''Fedora'' \<and> description self' = JStr ''A red hat'' \<and>
     price self' = Some (Finite False 1250 (- 2))"
proof -
  let ?kvs = "[(''name'', JStr ''Fedora''), (''description'', JStr ''A red hat''),
                 (''price'', JStr ''12.50''), (''available'', JStr ''yes''),
                 (''category'', JStr ''CLOTHS'')]"
  have 1: "map_of ?kvs ''name'' = Some (JStr ''Fedora'')"
    and 2: "map_of ?kvs ''description'' = Some (JStr ''A red hat'')"
    and 3: "map_of ?kvs ''price'' = Some (JStr ''12.50'')"
    and 4: "Decimal_12_50 (JStr ''12.50'') = Some (Finite False 1250 (- 2))"
    by (simp_all add: Decimal_12_50_def)
  have "map_of ?kvs ''available'' = Some (JStr ''yes'') \<and> (\<forall>b. JStr ''yes'' \<noteq> JBool b)"
    by simp
  then have 5: "(\<exists>a. map_of ?kvs ''available'' = Some a \<and> (\<forall>b. a \<noteq> JBool b)) \<or>
         (\<exists>c. map_of ?kvs ''category'' = Some c \<and> (\<forall>m. c \<noteq> JStr (Category_name m)))"
    by blast
  show ?thesis
    using deserialize_not_atomic
      [where kvs = ?kvs and n = "JStr ''Fedora''" and d = "JStr ''A red hat''"
         and p = "JStr ''12.50''" and D = Decimal_12_50 and dec = "Finite False 1250 (- 2)"
         and self = "Fedora\<lparr>name := JStr ''Hat'', price := None\<rparr>", OF 1 2 3 4 5]
    by simp
qed

section \<open>Persistence gateway: lookups, deletion, update and creation\<close>

lemma find_delete: "id' p = Some k \<Longrightarrow> find' k (delete p st) = None"
proof -
  assume a: "id' p = Some k"
  have "k \<notin> fst ` set (filter (\<lambda>(j, r). Some j \<noteq> id' p) (table st))"
    using a by auto
  then have "map_of (filter (\<lambda>(j, r). Some j \<noteq> id' p) (table st)) k = None"
    by (simp add: map_of_eq_None_iff)
  then show ?thesis
    by (simp add: find'_def delete_def session_delete_def query_get_def)
qed

lemma find_Some_id: "find' k st = Some p \<Longrightarrow> id' p = Some k"
  by (auto simp: find'_def query_get_def of_row_def)

lemma find_None_iff: "find' k st = None \<longleftrightarrow> k \<notin> fst ` set (table st)"
  by (simp add: find'_def query_get_def map_of_eq_None_iff)

lemma map_of_replace:
  "map_of (map (\<lambda>(i, ri). if i = j then (j, r) else (i, ri)) xs) i' =
     (if i' = j \<and> j \<in> fst ` set xs then Some r else map_of xs i')"
proof (induction xs)
  case Nil
  then show ?case by simp
next
  case (Cons x xs)
  obtain i ri where x: "x = (i, ri)" by (cases x)
  show ?case using Cons unfolding x by (cases "i = j"; cases "i' = j") simp_all
qed



lemma session_flush_no_validation_error:
  "fst (session_flush j self st) \<noteq> Inl (DataValidationError m)"
  by (simp add: session_flush_def split: option.splits prod.splits)

lemma session_flush_id:
  "id' (fst (snd (session_flush j self st))) = id' self"
  by (simp add: session_flush_def of_row_def split: option.splits prod.splits)









lemma no_member_INVALID: "\<forall>c. ''INVALID'' \<noteq> Category_name c"
proof
  fix c
  show "''INVALID'' \<noteq> Category_name c" by (cases c) simp_all
qed

text \<open>
  C3. \<^verbatim>\<open>find_by_category\<close> on a string that is the name of no member returns the
  sentinel \<^verbatim>\<open>None\<close>, which is not the empty list; on a member, or on a member's name,
  it returns the list of the stored products of that category, empty when there is
  none.
\<close>

theorem find_by_category_unresolved_sentinel:
  "((\<forall>c. s \<noteq> Category_name c) \<longrightarrow>
      find_by_category (Named s) st = None \<and> find_by_category (Named s) st \<noteq> Some []) \<and>
   find_by_category (Named (Category_name c)) st =
     Some (map (\<lambda>(k, r). of_row k r) (filter (\<lambda>(k, r). r_category r = c) (table st))) \<and>
   find_by_category (Member c) st =
     Some (map (\<lambda>(k, r). of_row k r) (filter (\<lambda>(k, r). r_category r = c) (table st)))"
  by (simp add: Category_members_None_iff [symmetric] Category_members_name query_filter_def)

theorem find_by_category_unresolved_sentinel_witness:
  "(\<forall>c. ''INVALID'' \<noteq> Category_name c) \<and>
   find_by_category (Named ''INVALID'') shop = None \<and>
   find_by_category (Named ''FOOD'') shop = Some [] \<and>
   find_by_category (Member TOOLS) shop = Some [of_row 2 Laptop_row]"
proof -
  note t = find_by_category_unresolved_sentinel
  have 1: "find_by_category (Named ''INVALID'') shop = None"
    using t [of "''INVALID''" shop] no_member_INVALID by blast
  have 2: "find_by_category (Named ''FOOD'') shop = Some []"
    using t [of _ shop FOOD] by (simp add: shop_def Fedora_row_def Laptop_row_def)
  have 3: "find_by_category (Member TOOLS) shop = Some [of_row 2 Laptop_row]"
    using t [of _ shop TOOLS] by (simp add: shop_def Fedora_row_def Laptop_row_def)
  from 1 2 3 no_member_INVALID show ?thesis by blast
qed

text \<open>
  C7. After \<^verbatim>\<open>delete\<close> of a product, \<^verbatim>\<open>find\<close> of its id returns \<^verbatim>\<open>None\<close>.
  DELETE /products/{id} answers 204 with an empty body when a row has the id, and the
  row is gone afterwards; it answers 404 and leaves the store alone when none has.
\<close>

theorem delete_then_find_not_found:
  "(id' p = Some k \<longrightarrow> find' k (delete p st) = None) \<and>
   (k \<in> fst ` set (table st) \<longrightarrow>
      (\<exists>st'. delete_products k st = (Reply 204 Empty None, st') \<and> find' k st' = None)) \<and>
   (k \<notin> fst ` set (table st) \<longrightarrow>
      delete_products k st = (Abort 404 (Some ''Product not found''), st))"
proof (intro conjI impI)
  assume "id' p = Some k"
  then show "find' k (delete p st) = None" by (rule find_delete)
next
  assume "k \<in> fst ` set (table st)"
  then obtain q where q: "find' k st = Some q"
    using find_None_iff [of k st] by (cases "find' k st") auto
  then have "find' k (delete q st) = None" using find_Some_id find_delete by blast
  with q show "\<exists>st'. delete_products k st = (Reply 204 Empty None, st') \<and> find' k st' = None"
    by (simp add: delete_products_def HTTP_204_NO_CONTENT_def)
next
  assume "k \<notin> fst ` set (table st)"
  then have "find' k st = None" by (simp add: find_None_iff)
  then show "delete_products k st = (Abort 404 (Some ''Product not found''), st)"
    by (simp add: delete_products_def HTTP_404_NOT_FOUND_def)
qed

theorem delete_then_find_not_found_witness:
  "id' (of_row 1 Fedora_row) = Some 1 \<and>
   find' 1 (delete (of_row 1 Fedora_row) shop) = None \<and>
   1 \<in> fst ` set (table shop) \<and>
   (\<exists>st'. delete_products 1 shop = (Reply 204 Empty None, st') \<and> find' 1 st' = None) \<and>
   9999 \<notin> fst ` set (table shop) \<and>
   delete_products 9999 shop = (Abort 404 (Some ''Product not found''), shop)"
proof -
  have 1: "id' (of_row 1 Fedora_row) = Some 1" by (simp add: of_row_def)
  have 2: "1 \<in> fst ` set (table shop)" by (simp add: shop_def)
  have 3: "9999 \<notin> fst ` set (table shop)" by (simp add: shop_def)
  from delete_then_find_not_found [of "of_row 1 Fedora_row" 1 shop] 1 2
  have 4: "find' 1 (delete (of_row 1 Fedora_row) shop) = None \<and>
           (\<exists>st'. delete_products 1 shop = (Reply 204 Empty None, st') \<and> find' 1 st' = None)"
    by blast
  from delete_then_find_not_found [of _ 9999 shop] 3
  have 5: "delete_products 9999 shop = (Abort 404 (Some ''Product not found''), shop)"
    by blast
  from 1 2 3 4 5 show ?thesis by blast
qed

text \<open>
  C6, as the code has it. \<^verbatim>\<open>update\<close> raises the validation error "Update called with
  empty ID" when the id is \<^verbatim>\<open>None\<close> or \<^verbatim>\<open>0\<close>. With any other id it raises no
  validation error and goes on to the commit of the session. For an instance the
  session tracks under that id, with changes that the storage accepts, the row of that
  id holds the instance's values afterwards; for an instance the session has not seen
  the commit writes nothing. In no case does \<^verbatim>\<open>update\<close> assign the instance's id.
\<close>

theorem update_requires_truthy_id:
  "(id' self = None \<or> id' self = Some 0 \<longrightarrow>
      update self st =
        (Inl (DataValidationError (Text ''Update called with empty ID'')), self, st)) \<and>
   (id' self = Some k \<and> k \<noteq> 0 \<longrightarrow>
      (\<forall>m. fst (update self st) \<noteq> Inl (DataValidationError m))) \<and>
   (id' self = Some k \<and> k \<noteq> 0 \<and> tracked self = Some k \<and>
    map_of (table st) k = Some r0 \<and> self \<noteq> of_row k r0 \<and> update_columns st self = Some r \<longrightarrow>
      (\<exists>st'. update self st = (Inr (), of_row k r, st') \<and> map_of (table st') k = Some r)) \<and>
   (id' self = Some k \<and> k \<noteq> 0 \<and> tracked self = None \<longrightarrow>
      update self st = (Inr (), self, st)) \<and>
   id' (fst (snd (update self st))) = id' self"
proof (intro conjI impI allI)
  assume "id' self = None \<or> id' self = Some 0"
  then show "update self st =
        (Inl (DataValidationError (Text ''Update called with empty ID'')), self, st)"
    by (auto simp: update_def)
next
  fix m
  assume "id' self = Some k \<and> k \<noteq> 0"
  then show "fst (update self st) \<noteq> Inl (DataValidationError m)"
    using session_flush_no_validation_error
    by (cases "tracked self") (simp_all add: update_def)
next
  assume a: "id' self = Some k \<and> k \<noteq> 0 \<and> tracked self = Some k \<and>
    map_of (table st) k = Some r0 \<and> self \<noteq> of_row k r0 \<and> update_columns st self = Some r"
  then have k: "k \<in> fst ` set (table st)"
    by (metis map_of_eq_None_iff option.distinct(1))
  from a have "update self st = (Inr (), of_row k r,
      st\<lparr>table := map (\<lambda>(i, ri). if i = k then (k, r) else (i, ri)) (table st)\<rparr>)"
    by (simp add: update_def session_flush_def)
  then show "\<exists>st'. update self st = (Inr (), of_row k r, st') \<and> map_of (table st') k = Some r"
    using k by (simp add: map_of_replace)
next
  assume "id' self = Some k \<and> k \<noteq> 0 \<and> tracked self = None"
  then show "update self st = (Inr (), self, st)" by (simp add: update_def)
next
  show "id' (fst (snd (update self st))) = id' self"
    using session_flush_id by (cases "tracked self") (simp_all add: update_def)
qed

theorem update_requires_truthy_id_witness:
  "id' ((of_row 1 Fedora_row)\<lparr>name := JStr ''Updated Name''\<rparr>) = Some 1 \<and> (1::int) \<noteq> 0 \<and>
   tracked ((of_row 1 Fedora_row)\<lparr>name := JStr ''Updated Name''\<rparr>) = Some 1 \<and>
   map_of (table shop) 1 = Some Fedora_row \<and>
   (of_row 1 Fedora_row)\<lparr>name := JStr ''Updated Name''\<rparr> \<noteq> of_row 1 Fedora_row \<and>
   update_columns shop ((of_row 1 Fedora_row)\<lparr>name := JStr ''Updated Name''\<rparr>) =
     Some (Fedora_row\<lparr>r_name := ''Updated Name''\<rparr>) \<and>
   (\<exists>st'. update ((of_row 1 Fedora_row)\<lparr>name := JStr ''Updated Name''\<rparr>) shop =
            (Inr (), of_row 1 (Fedora_row\<lparr>r_name := ''Updated Name''\<rparr>), st') \<and>
          map_of (table st') 1 = Some (Fedora_row\<lparr>r_name := ''Updated Name''\<rparr>)) \<and>
   id' Fedora = None \<and>
   update Fedora shop =
     (Inl (DataValidationError (Text ''Update called with empty ID'')), Fedora, shop) \<and>
   tracked (Fedora\<lparr>id' := Some 7\<rparr>) = None \<and>
   update (Fedora\<lparr>id' := Some 7\<rparr>) shop = (Inr (), Fedora\<lparr>id' := Some 7\<rparr>, shop)"
proof -
  let ?p = "(of_row 1 Fedora_row)\<lparr>name := JStr ''Updated Name''\<rparr>"
  let ?r = "Fedora_row\<lparr>r_name := ''Updated Name''\<rparr>"
  note t = update_requires_truthy_id
  have 1: "id' ?p = Some 1" and 2: "tracked ?p = Some 1" by (simp_all add: of_row_def)
  have 3: "map_of (table shop) 1 = Some Fedora_row" by (simp add: shop_def)
  have 4: "?p \<noteq> of_row 1 Fedora_row" by (simp add: of_row_def Fedora_row_def)
  have 5: "update_columns shop ?p = Some ?r"
    by (simp add: update_columns_def of_row_def Fedora_row_def shop_def)
  from t [of ?p shop 1 Fedora_row ?r] 1 2 3 4 5
  have 6: "\<exists>st'. update ?p shop = (Inr (), of_row 1 ?r, st') \<and> map_of (table st') 1 = Some ?r"
    by simp
  have 7: "id' Fedora = None" by (simp add: Fedora_def)
  from t [of Fedora shop] 7
  have 8: "update Fedora shop =
     (Inl (DataValidationError (Text ''Update called with empty ID'')), Fedora, shop)"
    by blast
  have 9: "id' (Fedora\<lparr>id' := Some 7\<rparr>) = Some 7" and 10: "tracked (Fedora\<lparr>id' := Some 7\<rparr>) = None"
    by (simp_all add: Fedora_def)
  from t [of "Fedora\<lparr>id' := Some 7\<rparr>" shop 7] 9 10
  have 11: "update (Fedora\<lparr>id' := Some 7\<rparr>) shop = (Inr (), Fedora\<lparr>id' := Some 7\<rparr>, shop)"
    by simp
  from 1 2 3 4 5 6 7 8 10 11 show ?thesis by simp
qed

text \<open>
  C6 as the specification words it, "when id is set it commits the in-place changes to
  the row matched by that id", fails three times over. With the id \<^verbatim>\<open>0\<close>, set and
  the key of a row, \<^verbatim>\<open>update\<close> raises the validation error. With the id \<^verbatim>\<open>1\<close> on an
  instance the session has not seen, \<^verbatim>\<open>update\<close> returns and the row \<^verbatim>\<open>1\<close> keeps its
  name. With the id \<^verbatim>\<open>1\<close> on the tracked instance of the row \<^verbatim>\<open>1\<close> whose name has been
  unset, the commit ends in the storage's exception.
\<close>

theorem update_zero_id_counterexample:
  "update ((of_row 0 Fedora_row)\<lparr>name := JStr ''Updated Name''\<rparr>)
       (shop\<lparr>table := [(0, Fedora_row)]\<rparr>) =
     (Inl (DataValidationError (Text ''Update called with empty ID'')),
      (of_row 0 Fedora_row)\<lparr>name := JStr ''Updated Name''\<rparr>,
      shop\<lparr>table := [(0, Fedora_row)]\<rparr>) \<and>
   update (Fedora\<lparr>id' := Some 1, name := JStr ''Updated Name''\<rparr>) shop =
     (Inr (), Fedora\<lparr>id' := Some 1, name := JStr ''Updated Name''\<rparr>, shop) \<and>
   map_of (table shop) 1 = Some Fedora_row \<and>
   update ((of_row 1 Fedora_row)\<lparr>name := JNull\<rparr>) shop =
     (Inl (Library IntegrityError), (of_row 1 Fedora_row)\<lparr>name := JNull\<rparr>, shop)"
proof -
  have 1: "update ((of_row 0 Fedora_row)\<lparr>name := JStr ''Updated Name''\<rparr>)
       (shop\<lparr>table := [(0, Fedora_row)]\<rparr>) =
     (Inl (DataValidationError (Text ''Update called with empty ID'')),
      (of_row 0 Fedora_row)\<lparr>name := JStr ''Updated Name''\<rparr>,
      shop\<lparr>table := [(0, Fedora_row)]\<rparr>)"
    by (simp add: update_def of_row_def)
  have 2: "update (Fedora\<lparr>id' := Some 1, name := JStr ''Updated Name''\<rparr>) shop =
     (Inr (), Fedora\<lparr>id' := Some 1, name := JStr ''Updated Name''\<rparr>, shop)"
    by (simp add: update_def Fedora_def)
  have 3: "map_of (table shop) 1 = Some Fedora_row" by (simp add: shop_def)
  have 4: "(of_row 1 Fedora_row)\<lparr>name := JNull\<rparr> \<noteq> of_row 1 Fedora_row"
    by (simp add: of_row_def)
  have 5: "update_columns shop ((of_row 1 Fedora_row)\<lparr>name := JNull\<rparr>) = None"
    by (simp add: update_columns_def of_row_def)
  have 6: "update ((of_row 1 Fedora_row)\<lparr>name := JNull\<rparr>) shop =
     (Inl (Library IntegrityError), (of_row 1 Fedora_row)\<lparr>name := JNull\<rparr>, shop)"
    using 3 4 5 by (simp add: update_def session_flush_def of_row_def)
  from 1 2 3 6 show ?thesis by blast
qed




section \<open>Request handlers: the content type guard and the listing\<close>

lemma check_content_type_aborts:
  "headers req ''Content-Type'' \<noteq> Some content_type \<Longrightarrow>
   check_content_type req content_type = Some (Abort 415 None)"
  by (auto simp: check_content_type_def HTTP_415_UNSUPPORTED_MEDIA_TYPE_def
      split: option.splits)

lemma serialize_of_row: "\<exists>j. serialize S (of_row k r) = Inr j"
  by (simp add: serialize_def of_row_def)

lemma serialize_all_rows:
  "\<exists>js. serialize_all S (map (\<lambda>(k, r). of_row k r) xs) = Inr js \<and>
        serialized S (map (\<lambda>(k, r). of_row k r) xs) js"
proof (induction xs)
  case Nil
  then show ?case by (simp add: serialized_def)
next
  case (Cons x xs)
  obtain k r where x: "x = (k, r)" by (cases x)
  obtain j where j: "serialize S (of_row k r) = Inr j" using serialize_of_row by blast
  from Cons obtain js where js: "serialize_all S (map (\<lambda>(k, r). of_row k r) xs) = Inr js"
    "serialized S (map (\<lambda>(k, r). of_row k r) xs) js" by blast
  show ?case using x j js by (simp add: serialized_def)
qed

lemma list_reply_query:
  "\<exists>js. list_reply S (query_filter P st) = Reply 200 (Json (JList js)) None \<and>
        serialized S (query_filter P st) js"
proof -
  obtain js where "serialize_all S (query_filter P st) = Inr js"
    "serialized S (query_filter P st) js"
    using serialize_all_rows [of S "filter (\<lambda>(k, r). P r) (table st)"]
    by (auto simp: query_filter_def)
  then show ?thesis by (auto simp: list_reply_def HTTP_200_OK_def)
qed

text \<open>
  C5. When the \<^verbatim>\<open>Content-Type\<close> header is absent or is not \<^verbatim>\<open>application/json\<close>, POST
  /products and PUT /products/{id} abort with 415 whatever the body, the id and the
  store are, and the store is as it was: no lookup and no parsing of the body has a
  part in the answer.
\<close>

theorem content_type_guard_415:
  assumes "headers req ''Content-Type'' \<noteq> Some ''application/json''"
  shows "create_products D S req st = (Abort 415 None, st) \<and>
         update_product D S product_id req st = (Abort 415 None, st)"
  using check_content_type_aborts [OF assms]
  by (simp add: create_products_def update_product_def)

theorem content_type_guard_415_witness:
  "headers (query []) ''Content-Type'' \<noteq> Some ''application/json'' \<and>
   create_products Decimal_12_50 str_12_50 (query []) shop = (Abort 415 None, shop) \<and>
   update_product Decimal_12_50 str_12_50 1 (query []) shop = (Abort 415 None, shop) \<and>
   headers ((query [])\<lparr>headers := [''Content-Type'' \<mapsto> ''text/html''],
                        get_json := Some (JObject Fedora_payload)\<rparr>) ''Content-Type''
     \<noteq> Some ''application/json'' \<and>
   create_products Decimal_12_50 str_12_50
     ((query [])\<lparr>headers := [''Content-Type'' \<mapsto> ''text/html''],
                  get_json := Some (JObject Fedora_payload)\<rparr>) shop = (Abort 415 None, shop)"
proof -
  have 1: "headers (query []) ''Content-Type'' \<noteq> Some ''application/json''"
    by (simp add: query_def)
  have 2: "headers ((query [])\<lparr>headers := [''Content-Type'' \<mapsto> ''text/html''],
                        get_json := Some (JObject Fedora_payload)\<rparr>) ''Content-Type''
     \<noteq> Some ''application/json''"
    by simp
  from content_type_guard_415 [OF 1, of Decimal_12_50 str_12_50 shop 1]
    content_type_guard_415 [OF 2, of Decimal_12_50 str_12_50 shop 1] 1 2
  show ?thesis by blast
qed

text \<open>
  C1. GET /products looks at \<^verbatim>\<open>name\<close> first, then \<^verbatim>\<open>category\<close>, then \<^verbatim>\<open>available\<close>. A
  name or a category counts as given when it is present and not empty, an
  \<^verbatim>\<open>available\<close> when it is present. With a name the answer is 200 and the array of the
  serialized products of that name; otherwise with a category it is 400 when the
  category is no member's name and else 200 and the products of that category; otherwise
  with an \<^verbatim>\<open>available\<close> it is 400 when the value, in lower case, is neither \<^verbatim>\<open>true\<close> nor
  \<^verbatim>\<open>false\<close> and else 200 and the products of that availability; otherwise it is 200 and
  all products. The store is never changed.
\<close>

theorem list_products_filter_precedence:
  "(args req ''name'' = Some n \<and> n \<noteq> [] \<longrightarrow>
      (\<exists>js. list_products S req st = (Reply 200 (Json (JList js)) None, st) \<and>
            serialized S (query_filter (\<lambda>r. r_name r = n) st) js)) \<and>
   ((args req ''name'' = None \<or> args req ''name'' = Some []) \<and>
    args req ''category'' = Some c \<and> c \<noteq> [] \<longrightarrow>
      ((\<forall>m. c \<noteq> Category_name m) \<longrightarrow>
         list_products S req st = (Abort 400 (Some ''Invalid category''), st)) \<and>
      (\<forall>m. c = Category_name m \<longrightarrow>
         (\<exists>js. list_products S req st = (Reply 200 (Json (JList js)) None, st) \<and>
               serialized S (query_filter (\<lambda>r. r_category r = m) st) js))) \<and>
   ((args req ''name'' = None \<or> args req ''name'' = Some []) \<and>
    (args req ''category'' = None \<or> args req ''category'' = Some []) \<and>
    args req ''available'' = Some a \<longrightarrow>
      (lower a \<noteq> ''true'' \<and> lower a \<noteq> ''false'' \<longrightarrow>
         list_products S req st = (Abort 400 (Some ''Invalid availability''), st)) \<and>
      (lower a = ''true'' \<or> lower a = ''false'' \<longrightarrow>
         (\<exists>js. list_products S req st = (Reply 200 (Json (JList js)) None, st) \<and>
               serialized S (query_filter (\<lambda>r. r_available r = (lower a = ''true'')) st) js))) \<and>
   ((args req ''name'' = None \<or> args req ''name'' = Some []) \<and>
    (args req ''category'' = None \<or> args req ''category'' = Some []) \<and>
    args req ''available'' = None \<longrightarrow>
      (\<exists>js. list_products S req st = (Reply 200 (Json (JList js)) None, st) \<and>
            serialized S (query_filter (\<lambda>r. True) st) js))"
proof (intro conjI impI allI)
  assume "args req ''name'' = Some n \<and> n \<noteq> []"
  then show "\<exists>js. list_products S req st = (Reply 200 (Json (JList js)) None, st) \<and>
            serialized S (query_filter (\<lambda>r. r_name r = n) st) js"
    using list_reply_query [of S "\<lambda>r. r_name r = n" st]
    by (auto simp: list_products_def Let_def find_by_name_def)
next
  assume a: "(args req ''name'' = None \<or> args req ''name'' = Some []) \<and>
    args req ''category'' = Some c \<and> c \<noteq> []" and b: "\<forall>m. c \<noteq> Category_name m"
  from b have "map_of Category_members c = None" by (simp add: Category_members_None_iff)
  with a show "list_products S req st = (Abort 400 (Some ''Invalid category''), st)"
    by (auto simp: list_products_def Let_def HTTP_400_BAD_REQUEST_def)
next
  fix m
  assume a: "(args req ''name'' = None \<or> args req ''name'' = Some []) \<and>
    args req ''category'' = Some c \<and> c \<noteq> []" and b: "c = Category_name m"
  from b have "map_of Category_members c = Some m" by (simp add: Category_members_name)
  with a show "\<exists>js. list_products S req st = (Reply 200 (Json (JList js)) None, st) \<and>
               serialized S (query_filter (\<lambda>r. r_category r = m) st) js"
    using list_reply_query [of S "\<lambda>r. r_category r = m" st]
    by (auto simp: list_products_def Let_def)
next
  assume a: "(args req ''name'' = None \<or> args req ''name'' = Some []) \<and>
    (args req ''category'' = None \<or> args req ''category'' = Some []) \<and>
    args req ''available'' = Some a" and b: "lower a \<noteq> ''true'' \<and> lower a \<noteq> ''false''"
  then show "list_products S req st = (Abort 400 (Some ''Invalid availability''), st)"
    by (auto simp: list_products_def Let_def HTTP_400_BAD_REQUEST_def)
next
  assume a: "(args req ''name'' = None \<or> args req ''name'' = Some []) \<and>
    (args req ''category'' = None \<or> args req ''category'' = Some []) \<and>
    args req ''available'' = Some a" and b: "lower a = ''true'' \<or> lower a = ''false''"
  then show "\<exists>js. list_products S req st = (Reply 200 (Json (JList js)) None, st) \<and>
               serialized S (query_filter (\<lambda>r. r_available r = (lower a = ''true'')) st) js"
    using list_reply_query [of S "\<lambda>r. r_available r = (lower a = ''true'')" st]
    by (auto simp: list_products_def Let_def find_by_availability_def)
next
  assume a: "(args req ''name'' = None \<or> args req ''name'' = Some []) \<and>
    (args req ''category'' = None \<or> args req ''category'' = Some []) \<and>
    args req ''available'' = None"
  then show "\<exists>js. list_products S req st = (Reply 200 (Json (JList js)) None, st) \<and>
            serialized S (query_filter (\<lambda>r. True) st) js"
    using list_reply_query [of S "\<lambda>r. True" st]
    by (auto simp: list_products_def Let_def all_products_def)
qed

theorem list_products_filter_precedence_witness:
  "args (query [(''name'', ''Laptop''), (''category'', ''INVALID'')]) ''name'' = Some ''Laptop'' \<and>
   (\<exists>js. list_products str_12_50 (query [(''name'', ''Laptop''), (''category'', ''INVALID'')]) shop =
           (Reply 200 (Json (JList js)) None, shop) \<and>
         serialized str_12_50 [of_row 2 Laptop_row] js) \<and>
   list_products str_12_50 (query [(''category'', ''INVALID''), (''available'', ''true'')]) shop =
     (Abort 400 (Some ''Invalid category''), shop) \<and>
   list_products str_12_50 (query [(''available'', ''maybe'')]) shop =
     (Abort 400 (Some ''Invalid availability''), shop) \<and>
   (\<exists>js. list_products str_12_50 (query [(''available'', ''TRUE'')]) shop =
           (Reply 200 (Json (JList js)) None, shop) \<and>
         serialized str_12_50 [of_row 1 Fedora_row] js) \<and>
   (\<exists>js. list_products str_12_50 (query []) shop = (Reply 200 (Json (JList js)) None, shop) \<and>
         serialized str_12_50 [of_row 1 Fedora_row, of_row 2 Laptop_row] js)"
proof -
  note t = list_products_filter_precedence
  have q1: "query_filter (\<lambda>r. r_name r = ''Laptop'') shop = [of_row 2 Laptop_row]"
    by (simp add: query_filter_def shop_def Fedora_row_def Laptop_row_def)
  have q2: "query_filter (\<lambda>r. r_available r = True) shop = [of_row 1 Fedora_row]"
    by (simp add: query_filter_def shop_def Fedora_row_def Laptop_row_def)
  have q3: "query_filter (\<lambda>r. True) shop = [of_row 1 Fedora_row, of_row 2 Laptop_row]"
    by (simp add: query_filter_def shop_def)
  have l1: "lower ''maybe'' \<noteq> ''true'' \<and> lower ''maybe'' \<noteq> ''false''"
    by (simp add: lower_def lower_char_def)
  have l2: "lower ''TRUE'' = ''true''"
    by (simp add: lower_def lower_char_def)
  have 0: "args (query [(''name'', ''Laptop''), (''category'', ''INVALID'')]) ''name'' =
             Some ''Laptop''"
    by (simp add: query_def)
  have 1: "\<exists>js. list_products str_12_50
                  (query [(''name'', ''Laptop''), (''category'', ''INVALID'')]) shop =
             (Reply 200 (Json (JList js)) None, shop) \<and>
           serialized str_12_50 [of_row 2 Laptop_row] js"
    using t [where req = "query [(''name'', ''Laptop''), (''category'', ''INVALID'')]"
               and n = "''Laptop''" and S = str_12_50 and st = shop] 0 q1
    by simp
  have 2: "list_products str_12_50
             (query [(''category'', ''INVALID''), (''available'', ''true'')]) shop =
           (Abort 400 (Some ''Invalid category''), shop)"
    using t [where req = "query [(''category'', ''INVALID''), (''available'', ''true'')]"
               and c = "''INVALID''" and S = str_12_50 and st = shop] no_member_INVALID
    by (simp add: query_def)
  have 3: "list_products str_12_50 (query [(''available'', ''maybe'')]) shop =
           (Abort 400 (Some ''Invalid availability''), shop)"
    using t [where req = "query [(''available'', ''maybe'')]"
               and a = "''maybe''" and S = str_12_50 and st = shop] l1
    by (simp add: query_def)
  have 4: "\<exists>js. list_products str_12_50 (query [(''available'', ''TRUE'')]) shop =
             (Reply 200 (Json (JList js)) None, shop) \<and>
           serialized str_12_50 [of_row 1 Fedora_row] js"
    using t [where req = "query [(''available'', ''TRUE'')]"
               and a = "''TRUE''" and S = str_12_50 and st = shop] l2 q2
    by (simp add: query_def)
  have 5: "\<exists>js. list_products str_12_50 (query []) shop =
             (Reply 200 (Json (JList js)) None, shop) \<and>
           serialized str_12_50 [of_row 1 Fedora_row, of_row 2 Laptop_row] js"
    using t [where req = "query []" and S = str_12_50 and st = shop] q3
    by (simp add: query_def)
  from 0 1 2 3 4 5 show ?thesis by blast
qed

text \<open>
  C10. In GET /products an empty \<^verbatim>\<open>name\<close> is handled as an absent one, and so is an
  empty \<^verbatim>\<open>category\<close>; an empty \<^verbatim>\<open>available\<close>, when no name and no category is given,
  is refused with 400.
\<close>

theorem list_products_empty_parameters:
  "(args req ''name'' = Some [] \<longrightarrow>
      list_products S req st =
        list_products S (req\<lparr>args := (args req)(''name'' := None)\<rparr>) st) \<and>
   (args req ''category'' = Some [] \<longrightarrow>
      list_products S req st =
        list_products S (req\<lparr>args := (args req)(''category'' := None)\<rparr>) st) \<and>
   ((args req ''name'' = None \<or> args req ''name'' = Some []) \<and>
    (args req ''category'' = None \<or> args req ''category'' = Some []) \<and>
    args req ''available'' = Some [] \<longrightarrow>
      list_products S req st = (Abort 400 (Some ''Invalid availability''), st))"
  by (auto simp: list_products_def Let_def lower_def HTTP_400_BAD_REQUEST_def)

theorem list_products_empty_parameters_witness:
  "args (query [(''name'', []), (''category'', []), (''available'', [])]) ''name'' = Some [] \<and>
   args (query [(''name'', []), (''category'', []), (''available'', [])]) ''category'' = Some [] \<and>
   args (query [(''name'', []), (''category'', []), (''available'', [])]) ''available'' = Some [] \<and>
   list_products str_12_50 (query [(''name'', []), (''category'', []), (''available'', [])]) shop =
     (Abort 400 (Some ''Invalid availability''), shop) \<and>
   list_products str_12_50 (query [(''name'', []), (''category'', ''FOOD'')]) shop =
     list_products str_12_50 (query [(''category'', ''FOOD'')]) shop"
proof -
  let ?q = "query [(''name'', []), (''category'', []), (''available'', [])]"
  note t = list_products_empty_parameters
  have 1: "args ?q ''name'' = Some []" and 2: "args ?q ''category'' = Some []"
    and 3: "args ?q ''available'' = Some []"
    by (simp_all add: query_def)
  from t [of ?q str_12_50 shop] 1 2 3
  have 4: "list_products str_12_50 ?q shop = (Abort 400 (Some ''Invalid availability''), shop)"
    by blast
  have 5: "args (query [(''name'', []), (''category'', ''FOOD'')]) ''name'' = Some []"
    by (simp add: query_def)
  have 6: "(query [(''name'', []), (''category'', ''FOOD'')])
             \<lparr>args := (args (query [(''name'', []), (''category'', ''FOOD'')]))(''name'' := None)\<rparr> =
           query [(''category'', ''FOOD'')]"
    by (auto simp: query_def)
  from t [of "query [(''name'', []), (''category'', ''FOOD'')]" str_12_50 shop] 5
  have "list_products str_12_50 (query [(''name'', []), (''category'', ''FOOD'')]) shop =
        list_products str_12_50
          ((query [(''name'', []), (''category'', ''FOOD'')])
             \<lparr>args := (args (query [(''name'', []), (''category'', ''FOOD'')]))(''name'' := None)\<rparr>)
          shop"
    by blast
  with 6 have 7: "list_products str_12_50 (query [(''name'', []), (''category'', ''FOOD'')]) shop =
     list_products str_12_50 (query [(''category'', ''FOOD'')]) shop"
    by simp
  from 1 2 3 4 7 show ?thesis by blast
qed

end
